theory Spec2Isabelle
  imports Main "HOL-Library.Sublist"
begin

section \<open>Customer support agent: data model\<close>

text \<open>
  The program is \<^verbatim>\<open>src/main.py\<close>. A Python \<^verbatim>\<open>str\<close> is modelled as a
  \<open>string\<close> whose characters are code points below 256. Coroutines
  (\<^verbatim>\<open>async def\<close>) are modelled by the value they return when awaited. The
  decorator \<^verbatim>\<open>function_tool\<close> comes from the imported \<^verbatim>\<open>agents\<close> package;
  a decorated tool is modelled by the body written in \<^verbatim>\<open>main.py\<close>, which is
  how the handlers of \<^verbatim>\<open>main.py\<close> call it.
\<close>

subsection \<open>Input models (lines 35-52)\<close>

record BillingInput =
  customer_id :: string
  billing_issue :: string

record RefundInput =
  order_id :: string
  refund_reason :: string

record TechSupportInput =
  issue :: string

record GeneralInfoInput =
  topic :: string

record HandoffParams =
  input_type :: string
  input_filter :: "string option"
  on_handoff :: "string option"

subsection \<open>Tool functions (lines 57-93)\<close>

text \<open>
  An f-string field \<^verbatim>\<open>{x}\<close> of a \<^verbatim>\<open>str\<close> inserts \<^verbatim>\<open>x\<close> unchanged; adjacent
  literals are concatenated. \<open>CHR 0x27\<close> is the apostrophe of the source text.
\<close>

definition billing_status_tool :: "BillingInput \<Rightarrow> string" where
  "billing_status_tool data =
     (''Billing for Customer ID '' @ customer_id data @ '' regarding '' @ [CHR 0x27])
     @ (billing_issue data @ [CHR 0x27] @ '' has been cleared successfully.'')"

definition refund_status_tool :: "RefundInput \<Rightarrow> string" where
  "refund_status_tool data =
     (''Refund for Order ID '' @ order_id data @ '' has been processed successfully '')
     @ (''due to: '' @ refund_reason data @ ''.'')"



subsection \<open>Handoff decision logic (lines 98-108)\<close>

definition sensitive :: "string list" where
  "sensitive = [''legal'', ''complaint'', ''technical'']"

definition handoff_decision :: "HandoffParams \<Rightarrow> string" where
  "handoff_decision params =
     (if input_type params \<in> set sensitive
      then ''I am escalating your request to a human agent ''
           @ ''because it involves a sensitive or complex matter.''
      else ''AI agent handled the query successfully.'')"

text \<open>The two replies of the escalation policy, named for the statements below.\<close>

definition escalation_message :: string where
  "escalation_message =
     ''I am escalating your request to a human agent because it involves a sensitive or complex matter.''"

definition handled_message :: string where
  "handled_message = ''AI agent handled the query successfully.''"

subsection \<open>Agent handlers (lines 113-147)\<close>





subsection \<open>Construction of the input models (lines 35-47)\<close>

text \<open>
  The four input classes derive from pydantic's \<^verbatim>\<open>BaseModel\<close> and declare each field
  as \<^verbatim>\<open>name: str\<close>, with no default and no length constraint. The constructor that
  \<^verbatim>\<open>BaseModel\<close> derives from such a declaration takes keyword arguments, collects one
  error for every declared field that is absent (\<open>Missing\<close>) or is not a \<^verbatim>\<open>str\<close>
  (\<open>StringType\<close>), raises \<^verbatim>\<open>ValidationError\<close> with these errors when there is one,
  and returns the instance otherwise; keywords that are not declared are ignored. The
  keyword arguments are an association list read with \<open>map_of\<close> (the keys of a Python
  \<^verbatim>\<open>dict\<close> are distinct).
\<close>

datatype py_value = PyStr string | PyInt int | PyBool bool | PyNone

datatype field_error = Missing | StringType

datatype exn =
  ValidationError "(string \<times> field_error) list"
  | EOFError
  | RunnerError string
  | HandoffNotFound string
  | AttributeError









subsection \<open>The handoffs of the main agent (lines 188-230)\<close>

text \<open>
  \<^verbatim>\<open>main_agent\<close> lists four handoffs. Each names the tool the model calls to take it,
  the input class its arguments are validated against, an optional input filter and the
  callback \<^verbatim>\<open>on_handoff\<close>. Taking a handoff is done by the imported \<^verbatim>\<open>agents\<close> package:
  it finds the handoff by tool name, constructs the input class from the arguments, and
  calls \<^verbatim>\<open>on_handoff\<close> with the context and the instance. \<open>invoke_handoff\<close> is that
  sequence over the table of \<^verbatim>\<open>main.py\<close>; its result is the string the callback
  computed. No entry of the table refers to \<^verbatim>\<open>handoff_decision\<close>.
\<close>

datatype structured_input =
  Billing BillingInput
  | Refund RefundInput
  | GeneralInfo GeneralInfoInput
  | TechSupport TechSupportInput

datatype input_class =
  BillingInput_class | RefundInput_class | GeneralInfoInput_class | TechSupportInput_class

datatype handler =
  billing_handler | refund_handler | info_handler | tech_support_handler

datatype handoff_filter = remove_all_tools

record handoff =
  agent :: string
  tool_name_override :: string
  tool_description_override :: string
  handoff_input_type :: input_class
  handoff_input_filter :: "handoff_filter option"
  handoff_on_handoff :: handler





subsection \<open>Main chat loop (lines 235-247)\<close>

text \<open>
  \<^verbatim>\<open>str.isspace\<close>, which \<^verbatim>\<open>str.strip()\<close> uses, and \<^verbatim>\<open>str.lower()\<close>, on code points
  below 256.
\<close>

definition py_isspace :: "char \<Rightarrow> bool" where
  "py_isspace c =
     (let n = (of_char c :: nat) in
      (9 \<le> n \<and> n \<le> 13) \<or> (28 \<le> n \<and> n \<le> 32) \<or> n = 133 \<or> n = 160)"

definition py_lower_char :: "char \<Rightarrow> char" where
  "py_lower_char c =
     (let n = (of_char c :: nat) in
      if (65 \<le> n \<and> n \<le> 90) \<or> (192 \<le> n \<and> n \<le> 214) \<or> (216 \<le> n \<and> n \<le> 222)
      then char_of (n + 32) else c)"

definition strip :: "string \<Rightarrow> string" where
  "strip s = rev (dropWhile py_isspace (rev (dropWhile py_isspace s)))"

definition lower :: "string \<Rightarrow> string" where
  "lower s = map py_lower_char s"

text \<open>The test of line 239.\<close>

definition is_exit :: "string \<Rightarrow> bool" where
  "is_exit user_input = (lower (strip user_input) = ''exit'')"

text \<open>
  \<^verbatim>\<open>Runner.run\<close> belongs to the imported \<^verbatim>\<open>agents\<close> package and calls the hosted
  model, so it is a parameter of the loop: from the state of the outside world and the
  user's text it gives either the exception it raises or the \<^verbatim>\<open>final_output\<close> of its
  result, and the next state of the world. Standard input is the list of the lines still
  to be read; \<^verbatim>\<open>input\<close> raises \<^verbatim>\<open>EOFError\<close> when none is left. The loop has no
  \<^verbatim>\<open>try\<close>: an exception leaves \<^verbatim>\<open>main\<close>. A session records how the loop ended, what
  was written to standard output (the prompts of \<^verbatim>\<open>input\<close> and the lines of
  \<^verbatim>\<open>print\<close>), and the texts \<^verbatim>\<open>Runner.run\<close> was called with, in order.
\<close>

datatype ending = Exited | Raised exn

record 'w session =
  ending :: ending
  stdout :: "string list"
  runner_inputs :: "string list"
  world :: 'w

type_synonym 'w runner = "'w \<Rightarrow> string \<Rightarrow> (exn + string) \<times> 'w"

fun chat_loop :: "'w runner \<Rightarrow> 'w \<Rightarrow> string list \<Rightarrow> 'w session" where
  "chat_loop run w [] =
     \<lparr>ending = Raised EOFError, stdout = [''You: ''], runner_inputs = [], world = w\<rparr>"
| "chat_loop run w (user_input # rest) =
     (if lower (strip user_input) = ''exit''
      then \<lparr>ending = Exited,
            stdout = [''You: '',
                      ''Thank you for contacting ACME Corp. Have a great day!'' @ [CHR 0x0A]],
            runner_inputs = [], world = w\<rparr>
      else
        (case run w user_input of
           (Inl e, w') \<Rightarrow>
             \<lparr>ending = Raised e, stdout = [''You: ''], runner_inputs = [user_input],
              world = w'\<rparr>
         | (Inr final_output, w') \<Rightarrow>
             (let s = chat_loop run w' rest in
              s\<lparr>stdout := ''You: '' # (''SupportBot: '' @ final_output @ [CHR 0x0A, CHR 0x0A])
                            # stdout s,
                runner_inputs := user_input # runner_inputs s\<rparr>)))"


text \<open>
  Two runners for the closed statements below: one whose every call raises, as a call does
  on a response of the model it cannot use, and one that answers with the text it was
  given.
\<close>

definition raising_runner :: "unit runner" where
  "raising_runner w user_input = (Inl (RunnerError ''malformed response''), w)"

definition echo_runner :: "unit runner" where
  "echo_runner w user_input = (Inr user_input, w)"


section \<open>Escalation policy\<close>

lemma set_sensitive: "set sensitive = {''legal'', ''complaint'', ''technical''}"
  by (simp add: sensitive_def)

lemma handoff_decision_eq:
  "handoff_decision p =
     (if input_type p \<in> {''legal'', ''complaint'', ''technical''}
      then escalation_message else handled_message)"
  by (simp add: handoff_decision_def set_sensitive escalation_message_def
      handled_message_def)

lemma messages_differ: "escalation_message \<noteq> handled_message"
  by (simp add: escalation_message_def handled_message_def)

text \<open>
  Claim C2. The escalation policy escalates exactly the categories of the fixed sensitive
  set: an input whose \<open>input_type\<close> is \<open>legal\<close>, \<open>complaint\<close> or \<open>technical\<close> gets the
  escalation message, an input with any other \<open>input_type\<close> gets the handled-autonomously
  message, the two messages are different, and two inputs of the same category get the same
  decision.
\<close>

theorem handoff_decision_sensitive_set:
  "(input_type p \<in> {''legal'', ''complaint'', ''technical''}
      \<longrightarrow> handoff_decision p = escalation_message)
   \<and> (input_type p \<notin> {''legal'', ''complaint'', ''technical''}
      \<longrightarrow> handoff_decision p = handled_message)
   \<and> escalation_message \<noteq> handled_message
   \<and> (input_type p = input_type q \<longrightarrow> handoff_decision p = handoff_decision q)"
  by (simp add: handoff_decision_eq messages_differ)

theorem handoff_decision_sensitive_set_witness:
  "handoff_decision \<lparr>input_type = ''complaint'', input_filter = None, on_handoff = None\<rparr>
     = escalation_message
   \<and> handoff_decision \<lparr>input_type = ''billing'', input_filter = None, on_handoff = None\<rparr>
     = handled_message
   \<and> handoff_decision \<lparr>input_type = ''complaint'', input_filter = None, on_handoff = None\<rparr>
     = handoff_decision
         \<lparr>input_type = ''complaint'', input_filter = Some ''f'', on_handoff = None\<rparr>"
  using handoff_decision_sensitive_set
      [of "\<lparr>input_type = ''complaint'', input_filter = None, on_handoff = None\<rparr>"
          "\<lparr>input_type = ''complaint'', input_filter = Some ''f'', on_handoff = None\<rparr>"]
    handoff_decision_sensitive_set
      [of "\<lparr>input_type = ''billing'', input_filter = None, on_handoff = None\<rparr>"
          "\<lparr>input_type = ''billing'', input_filter = None, on_handoff = None\<rparr>"]
  by (simp add: handoff_decision_eq)

text \<open>
  Claim C3. For the category name \<open>tech_support\<close> the escalation policy does not escalate:
  it returns the handled-autonomously message and not the escalation message, since the
  sensitive list holds \<open>technical\<close> and not \<open>tech_support\<close>.
\<close>

theorem handoff_decision_tech_support:
  "handoff_decision \<lparr>input_type = ''tech_support'', input_filter = f, on_handoff = h\<rparr>
     = handled_message
   \<and> handoff_decision \<lparr>input_type = ''tech_support'', input_filter = f, on_handoff = h\<rparr>
     \<noteq> escalation_message
   \<and> ''technical'' \<in> set sensitive
   \<and> ''tech_support'' \<notin> set sensitive"
  using messages_differ by (simp add: handoff_decision_eq set_sensitive)

text \<open>
  Claim C10. The decision depends only on \<open>input_type\<close>: two parameter records with equal
  \<open>input_type\<close> and arbitrary \<open>input_filter\<close> and \<open>on_handoff\<close> get equal results, and
  every result is one of the two fixed messages.
\<close>

theorem handoff_decision_depends_on_input_type:
  "(input_type p = input_type q \<longrightarrow> handoff_decision p = handoff_decision q)
   \<and> handoff_decision p \<in> {escalation_message, handled_message}"
  by (simp add: handoff_decision_eq)

theorem handoff_decision_depends_on_input_type_witness:
  "handoff_decision \<lparr>input_type = ''legal'', input_filter = Some ''a'', on_handoff = None\<rparr>
     = handoff_decision
         \<lparr>input_type = ''legal'', input_filter = None, on_handoff = Some ''b''\<rparr>
   \<and> handoff_decision \<lparr>input_type = ''legal'', input_filter = Some ''a'', on_handoff = None\<rparr>
     \<in> {escalation_message, handled_message}"
  using handoff_decision_depends_on_input_type
      [of "\<lparr>input_type = ''legal'', input_filter = Some ''a'', on_handoff = None\<rparr>"
          "\<lparr>input_type = ''legal'', input_filter = None, on_handoff = Some ''b''\<rparr>"]
  by (simp add: handoff_decision_eq)

section \<open>Action tools and handlers\<close>

text \<open>
  Claim C6. For every \<open>BillingInput\<close> (in particular every one with non-empty fields) the
  string returned by \<open>billing_status_tool\<close> contains the \<open>customer_id\<close> value, the
  \<open>billing_issue\<close> value and the phrase \<open>cleared successfully.\<close> as contiguous substrings.
\<close>

theorem billing_status_tool_contains:
  "sublist (customer_id b) (billing_status_tool b)
   \<and> sublist (billing_issue b) (billing_status_tool b)
   \<and> sublist ''cleared successfully.'' (billing_status_tool b)"
proof -
  have "billing_status_tool b =
      ''Billing for Customer ID '' @ customer_id b
        @ ('' regarding '' @ [CHR 0x27] @ billing_issue b @ [CHR 0x27] @ '' has been cleared successfully.'')"
    by (simp add: billing_status_tool_def)
  then have c: "sublist (customer_id b) (billing_status_tool b)"
    by (simp only: sublist_appendI)
  have "billing_status_tool b =
      (''Billing for Customer ID '' @ customer_id b @ '' regarding '' @ [CHR 0x27])
        @ billing_issue b @ ([CHR 0x27] @ '' has been cleared successfully.'')"
    by (simp add: billing_status_tool_def)
  then have i: "sublist (billing_issue b) (billing_status_tool b)"
    by (simp only: sublist_appendI)
  have "billing_status_tool b =
      (''Billing for Customer ID '' @ customer_id b @ '' regarding '' @ [CHR 0x27]
         @ billing_issue b @ [CHR 0x27] @ '' has been '')
        @ ''cleared successfully.'' @ []"
    by (simp add: billing_status_tool_def)
  then have s: "sublist ''cleared successfully.'' (billing_status_tool b)"
    by (simp only: sublist_appendI)
  from c i s show ?thesis by blast
qed

text \<open>
  Claim C7, as amended. For every \<open>RefundInput\<close> (in particular every one with non-empty
  fields) the string returned by \<open>refund_status_tool\<close> contains the \<open>order_id\<close> value,
  the \<open>refund_reason\<close> value and the phrase \<open>processed successfully\<close> as contiguous
  substrings. The phrase is followed by \<open>due to:\<close> and the reason, not by a full stop.
\<close>

theorem refund_status_tool_contains:
  "sublist (order_id r) (refund_status_tool r)
   \<and> sublist (refund_reason r) (refund_status_tool r)
   \<and> sublist ''processed successfully'' (refund_status_tool r)"
proof -
  have "refund_status_tool r =
      ''Refund for Order ID '' @ order_id r
        @ ('' has been processed successfully due to: '' @ refund_reason r @ ''.'')"
    by (simp add: refund_status_tool_def)
  then have c: "sublist (order_id r) (refund_status_tool r)"
    by (simp only: sublist_appendI)
  have "refund_status_tool r =
      (''Refund for Order ID '' @ order_id r @ '' has been processed successfully due to: '')
        @ refund_reason r @ ''.''"
    by (simp add: refund_status_tool_def)
  then have i: "sublist (refund_reason r) (refund_status_tool r)"
    by (simp only: sublist_appendI)
  have "refund_status_tool r =
      (''Refund for Order ID '' @ order_id r @ '' has been '')
        @ ''processed successfully'' @ ('' due to: '' @ refund_reason r @ ''.'')"
    by (simp add: refund_status_tool_def)
  then have s: "sublist ''processed successfully'' (refund_status_tool r)"
    by (simp only: sublist_appendI)
  from c i s show ?thesis by blast
qed

text \<open>
  Claim C7 as stated fails: with the full stop inside the phrase, \<open>processed successfully.\<close>
  does not occur in the reply for order \<open>123\<close> and reason \<open>damaged\<close>.
\<close>

theorem refund_status_tool_full_stop_counterexample:
  "refund_status_tool \<lparr>order_id = ''123'', refund_reason = ''damaged''\<rparr>
     = ''Refund for Order ID 123 has been processed successfully due to: damaged.''
   \<and> \<not> sublist ''processed successfully.''
         (refund_status_tool \<lparr>order_id = ''123'', refund_reason = ''damaged''\<rparr>)"
proof -
  have e: "refund_status_tool \<lparr>order_id = ''123'', refund_reason = ''damaged''\<rparr>
     = ''Refund for Order ID 123 has been processed successfully due to: damaged.''"
    by (simp add: refund_status_tool_def)
  have "\<not> sublist ''processed successfully.''
     ''Refund for Order ID 123 has been processed successfully due to: damaged.''"
    by code_simp
  with e show ?thesis by simp
qed


section \<open>Construction of the input models\<close>


















section \<open>Dispatch of a handoff\<close>









section \<open>The chat loop\<close>

subsection \<open>The exit test\<close>

lemma char_eq_nat: "x = y \<longleftrightarrow> (of_char x :: nat) = of_char y"
  by simp

lemma of_char_less_256: "(of_char x :: nat) < 256"
  by simp

lemma lower_e: "py_lower_char x = CHR ''e'' \<longleftrightarrow> x = CHR ''e'' \<or> x = CHR ''E''"
  unfolding py_lower_char_def Let_def char_eq_nat[of _ "CHR ''e''"] char_eq_nat[of _ "CHR ''E''"]
  using of_char_less_256[of x] by (auto simp: mod_if)

lemma lower_x: "py_lower_char x = CHR ''x'' \<longleftrightarrow> x = CHR ''x'' \<or> x = CHR ''X''"
  unfolding py_lower_char_def Let_def char_eq_nat[of _ "CHR ''x''"] char_eq_nat[of _ "CHR ''X''"]
  using of_char_less_256[of x] by (auto simp: mod_if)

lemma lower_i: "py_lower_char x = CHR ''i'' \<longleftrightarrow> x = CHR ''i'' \<or> x = CHR ''I''"
  unfolding py_lower_char_def Let_def char_eq_nat[of _ "CHR ''i''"] char_eq_nat[of _ "CHR ''I''"]
  using of_char_less_256[of x] by (auto simp: mod_if)

lemma lower_t: "py_lower_char x = CHR ''t'' \<longleftrightarrow> x = CHR ''t'' \<or> x = CHR ''T''"
  unfolding py_lower_char_def Let_def char_eq_nat[of _ "CHR ''t''"] char_eq_nat[of _ "CHR ''T''"]
  using of_char_less_256[of x] by (auto simp: mod_if)


lemma lower_exit:
  "lower c = ''exit'' \<longleftrightarrow>
     (\<exists>c1 c2 c3 c4. c = [c1, c2, c3, c4] \<and> c1 \<in> {CHR ''e'', CHR ''E''}
        \<and> c2 \<in> {CHR ''x'', CHR ''X''} \<and> c3 \<in> {CHR ''i'', CHR ''I''}
        \<and> c4 \<in> {CHR ''t'', CHR ''T''})"
proof
  assume "lower c = ''exit''"
  then obtain c1 c2 c3 c4 where c: "c = [c1, c2, c3, c4]"
    and l: "py_lower_char c1 = CHR ''e''" "py_lower_char c2 = CHR ''x''"
      "py_lower_char c3 = CHR ''i''" "py_lower_char c4 = CHR ''t''"
    unfolding lower_def by (auto simp only: map_eq_Cons_conv list.simps)
  from l have "c1 \<in> {CHR ''e'', CHR ''E''}" "c2 \<in> {CHR ''x'', CHR ''X''}"
    "c3 \<in> {CHR ''i'', CHR ''I''}" "c4 \<in> {CHR ''t'', CHR ''T''}"
    unfolding lower_e lower_x lower_i lower_t by blast+
  with c show "\<exists>c1 c2 c3 c4. c = [c1, c2, c3, c4] \<and> c1 \<in> {CHR ''e'', CHR ''E''}
        \<and> c2 \<in> {CHR ''x'', CHR ''X''} \<and> c3 \<in> {CHR ''i'', CHR ''I''}
        \<and> c4 \<in> {CHR ''t'', CHR ''T''}" by blast
next
  assume "\<exists>c1 c2 c3 c4. c = [c1, c2, c3, c4] \<and> c1 \<in> {CHR ''e'', CHR ''E''}
        \<and> c2 \<in> {CHR ''x'', CHR ''X''} \<and> c3 \<in> {CHR ''i'', CHR ''I''}
        \<and> c4 \<in> {CHR ''t'', CHR ''T''}"
  then obtain c1 c2 c3 c4 where c: "c = [c1, c2, c3, c4]"
    and m: "c1 = CHR ''e'' \<or> c1 = CHR ''E''" "c2 = CHR ''x'' \<or> c2 = CHR ''X''"
       "c3 = CHR ''i'' \<or> c3 = CHR ''I''" "c4 = CHR ''t'' \<or> c4 = CHR ''T''"
    by blast
  from m have "py_lower_char c1 = CHR ''e''" "py_lower_char c2 = CHR ''x''"
      "py_lower_char c3 = CHR ''i''" "py_lower_char c4 = CHR ''t''"
    unfolding lower_e lower_x lower_i lower_t by blast+
  with c show "lower c = ''exit''" by (simp add: lower_def)
qed

lemma not_space_e: "\<not> py_isspace (CHR ''e'')" "\<not> py_isspace (CHR ''E'')"
  "\<not> py_isspace (CHR ''t'')" "\<not> py_isspace (CHR ''T'')"
  by (simp_all add: py_isspace_def)

lemma strip_decomp:
  "\<exists>a b. s = a @ strip s @ b \<and> list_all py_isspace a \<and> list_all py_isspace b"
proof -
  define m where "m = dropWhile py_isspace s"
  define a where "a = takeWhile py_isspace s"
  define b where "b = rev (takeWhile py_isspace (rev m))"
  have s: "s = a @ m" by (simp add: a_def m_def)
  have "strip s @ b
      = rev (takeWhile py_isspace (rev m) @ dropWhile py_isspace (rev m))"
    by (simp only: strip_def b_def m_def rev_append)
  also have "\<dots> = rev (rev m)" by (simp only: takeWhile_dropWhile_id)
  finally have m: "m = strip s @ b" by simp
  have la: "list_all py_isspace a"
    by (auto simp: a_def list_all_iff dest: set_takeWhileD)
  have lb: "list_all py_isspace b"
    by (auto simp: b_def list_all_iff dest: set_takeWhileD)
  from s m la lb show ?thesis by blast
qed

lemma strip_core:
  assumes "list_all py_isspace a" "list_all py_isspace b" "c \<noteq> []"
    "\<not> py_isspace (hd c)" "\<not> py_isspace (last c)"
  shows "strip (a @ c @ b) = c"
proof -
  have 1: "dropWhile py_isspace (a @ c @ b) = dropWhile py_isspace (c @ b)"
    using assms(1) by (simp add: dropWhile_append2 list_all_iff)
  have 2: "dropWhile py_isspace (c @ b) = c @ b"
    using assms(3,4) by (cases c) simp_all
  have 3: "dropWhile py_isspace (rev b @ rev c) = dropWhile py_isspace (rev c)"
    using assms(2) by (intro dropWhile_append2) (simp add: list_all_iff)
  have 4: "dropWhile py_isspace (rev c) = rev c"
    using assms(3,5) by (cases c rule: rev_cases) simp_all
  show ?thesis by (simp add: strip_def 1 2 3 4)
qed

lemma is_exit_iff:
  "is_exit l \<longleftrightarrow>
     (\<exists>a b c1 c2 c3 c4. l = a @ [c1, c2, c3, c4] @ b
        \<and> list_all py_isspace a \<and> list_all py_isspace b
        \<and> c1 \<in> {CHR ''e'', CHR ''E''} \<and> c2 \<in> {CHR ''x'', CHR ''X''}
        \<and> c3 \<in> {CHR ''i'', CHR ''I''} \<and> c4 \<in> {CHR ''t'', CHR ''T''})"
proof
  assume "is_exit l"
  then have "lower (strip l) = ''exit''" by (simp add: is_exit_def)
  then obtain c1 c2 c3 c4 where c: "strip l = [c1, c2, c3, c4]" "c1 \<in> {CHR ''e'', CHR ''E''}"
    "c2 \<in> {CHR ''x'', CHR ''X''}" "c3 \<in> {CHR ''i'', CHR ''I''}" "c4 \<in> {CHR ''t'', CHR ''T''}"
    unfolding lower_exit by blast
  obtain a b where "l = a @ strip l @ b" "list_all py_isspace a" "list_all py_isspace b"
    using strip_decomp by blast
  with c show "\<exists>a b c1 c2 c3 c4. l = a @ [c1, c2, c3, c4] @ b
        \<and> list_all py_isspace a \<and> list_all py_isspace b
        \<and> c1 \<in> {CHR ''e'', CHR ''E''} \<and> c2 \<in> {CHR ''x'', CHR ''X''}
        \<and> c3 \<in> {CHR ''i'', CHR ''I''} \<and> c4 \<in> {CHR ''t'', CHR ''T''}"
    by (intro exI[of _ a] exI[of _ b] exI[of _ c1] exI[of _ c2] exI[of _ c3] exI[of _ c4]) simp
next
  assume "\<exists>a b c1 c2 c3 c4. l = a @ [c1, c2, c3, c4] @ b
        \<and> list_all py_isspace a \<and> list_all py_isspace b
        \<and> c1 \<in> {CHR ''e'', CHR ''E''} \<and> c2 \<in> {CHR ''x'', CHR ''X''}
        \<and> c3 \<in> {CHR ''i'', CHR ''I''} \<and> c4 \<in> {CHR ''t'', CHR ''T''}"
  then obtain a b c1 c2 c3 c4 where l: "l = a @ [c1, c2, c3, c4] @ b"
    and ab: "list_all py_isspace a" "list_all py_isspace b"
    and c: "c1 \<in> {CHR ''e'', CHR ''E''}" "c2 \<in> {CHR ''x'', CHR ''X''}"
      "c3 \<in> {CHR ''i'', CHR ''I''}" "c4 \<in> {CHR ''t'', CHR ''T''}"
    by blast
  have h: "\<not> py_isspace (hd [c1, c2, c3, c4])" using c(1) not_space_e by auto
  have t: "\<not> py_isspace (last [c1, c2, c3, c4])" using c(4) not_space_e by auto
  have "strip l = [c1, c2, c3, c4]"
    unfolding l using ab h t by (intro strip_core) simp_all
  moreover have "lower [c1, c2, c3, c4] = ''exit''"
    unfolding lower_exit using c by blast
  ultimately show "is_exit l" by (simp add: is_exit_def)
qed

subsection \<open>One pass of the loop\<close>

lemma chat_loop_exit:
  "is_exit l \<Longrightarrow> chat_loop run w (l # rest) =
     \<lparr>ending = Exited,
      stdout = [''You: '', ''Thank you for contacting ACME Corp. Have a great day!'' @ [CHR 0x0A]],
      runner_inputs = [], world = w\<rparr>"
  by (simp add: is_exit_def)

lemma chat_loop_raise:
  "\<not> is_exit l \<Longrightarrow> run w l = (Inl e, w') \<Longrightarrow> chat_loop run w (l # rest) =
     \<lparr>ending = Raised e, stdout = [''You: ''], runner_inputs = [l], world = w'\<rparr>"
  by (simp add: is_exit_def)

lemma chat_loop_reply:
  "\<not> is_exit l \<Longrightarrow> run w l = (Inr out, w') \<Longrightarrow> chat_loop run w (l # rest) =
     (chat_loop run w' rest)
       \<lparr>stdout := ''You: '' # (''SupportBot: '' @ out @ [CHR 0x0A, CHR 0x0A])
                    # stdout (chat_loop run w' rest),
        runner_inputs := l # runner_inputs (chat_loop run w' rest)\<rparr>"
  by (simp add: is_exit_def Let_def)






text \<open>
  Claim C8, as amended. A line passes the exit test exactly when it is \<open>exit\<close>, each letter
  in either case, between two runs of whitespace. For such a line the loop prints the
  farewell and ends without calling \<^verbatim>\<open>Runner.run\<close>. For every other line the loop calls
  \<^verbatim>\<open>Runner.run\<close> once, with that line; when the call returns, the loop prints the reply
  and goes on with the remaining lines, and when the call raises, the exception ends the
  loop.
\<close>

theorem exit_line_ends_loop:
  "(is_exit l \<longleftrightarrow>
      (\<exists>a b c1 c2 c3 c4. l = a @ [c1, c2, c3, c4] @ b
         \<and> list_all py_isspace a \<and> list_all py_isspace b
         \<and> c1 \<in> {CHR ''e'', CHR ''E''} \<and> c2 \<in> {CHR ''x'', CHR ''X''}
         \<and> c3 \<in> {CHR ''i'', CHR ''I''} \<and> c4 \<in> {CHR ''t'', CHR ''T''}))
   \<and> (is_exit l \<longrightarrow>
      chat_loop run w (l # rest) =
        \<lparr>ending = Exited,
         stdout = [''You: '',
                   ''Thank you for contacting ACME Corp. Have a great day!'' @ [CHR 0x0A]],
         runner_inputs = [], world = w\<rparr>)
   \<and> (\<not> is_exit l \<and> run w l = (Inr out, w') \<longrightarrow>
      chat_loop run w (l # rest) =
        (chat_loop run w' rest)
          \<lparr>stdout := ''You: '' # (''SupportBot: '' @ out @ [CHR 0x0A, CHR 0x0A])
                       # stdout (chat_loop run w' rest),
           runner_inputs := l # runner_inputs (chat_loop run w' rest)\<rparr>)
   \<and> (\<not> is_exit l \<and> run w l = (Inl e, w') \<longrightarrow>
      chat_loop run w (l # rest) =
        \<lparr>ending = Raised e, stdout = [''You: ''], runner_inputs = [l], world = w'\<rparr>)"
proof (intro conjI impI)
  show "is_exit l \<longleftrightarrow>
      (\<exists>a b c1 c2 c3 c4. l = a @ [c1, c2, c3, c4] @ b
         \<and> list_all py_isspace a \<and> list_all py_isspace b
         \<and> c1 \<in> {CHR ''e'', CHR ''E''} \<and> c2 \<in> {CHR ''x'', CHR ''X''}
         \<and> c3 \<in> {CHR ''i'', CHR ''I''} \<and> c4 \<in> {CHR ''t'', CHR ''T''})"
    by (rule is_exit_iff)
next
  assume "is_exit l"
  then show "chat_loop run w (l # rest) =
        \<lparr>ending = Exited,
         stdout = [''You: '',
                   ''Thank you for contacting ACME Corp. Have a great day!'' @ [CHR 0x0A]],
         runner_inputs = [], world = w\<rparr>"
    by (rule chat_loop_exit)
next
  assume "\<not> is_exit l \<and> run w l = (Inr out, w')"
  then have "\<not> is_exit l" "run w l = (Inr out, w')" by simp_all
  then show "chat_loop run w (l # rest) =
        (chat_loop run w' rest)
          \<lparr>stdout := ''You: '' # (''SupportBot: '' @ out @ [CHR 0x0A, CHR 0x0A])
                       # stdout (chat_loop run w' rest),
           runner_inputs := l # runner_inputs (chat_loop run w' rest)\<rparr>"
    by (rule chat_loop_reply)
next
  assume "\<not> is_exit l \<and> run w l = (Inl e, w')"
  then have "\<not> is_exit l" "run w l = (Inl e, w')" by simp_all
  then show "chat_loop run w (l # rest) =
        \<lparr>ending = Raised e, stdout = [''You: ''], runner_inputs = [l], world = w'\<rparr>"
    by (rule chat_loop_raise)
qed


theorem exit_line_ends_loop_witness:
  "is_exit ''EXIT  ''
   \<and> chat_loop echo_runner () [''EXIT  '', ''hi''] =
       \<lparr>ending = Exited,
        stdout = [''You: '',
                  ''Thank you for contacting ACME Corp. Have a great day!'' @ [CHR 0x0A]],
        runner_inputs = [], world = ()\<rparr>
   \<and> \<not> is_exit ''hi''
   \<and> chat_loop echo_runner () [''hi'', ''EXIT  ''] =
       \<lparr>ending = Exited,
        stdout = [''You: '', ''SupportBot: hi'' @ [CHR 0x0A, CHR 0x0A], ''You: '',
                  ''Thank you for contacting ACME Corp. Have a great day!'' @ [CHR 0x0A]],
        runner_inputs = [''hi''], world = ()\<rparr>
   \<and> chat_loop raising_runner () [''hi'', ''EXIT  ''] =
       \<lparr>ending = Raised (RunnerError ''malformed response''), stdout = [''You: ''],
        runner_inputs = [''hi''], world = ()\<rparr>"
proof -
  have x: "is_exit ''EXIT  ''" by code_simp
  have n: "\<not> is_exit ''hi''"
    by (simp add: is_exit_def lower_def strip_def py_isspace_def py_lower_char_def)
  have ok: "echo_runner () ''hi'' = (Inr ''hi'', ())"
    by (simp add: echo_runner_def)
  have bad: "raising_runner () ''hi'' = (Inl (RunnerError ''malformed response''), ())"
    by (simp add: raising_runner_def)
  from exit_line_ends_loop[where l = "''EXIT  ''" and run = echo_runner and w = "()" and rest = "[''hi'']"] x
  have 1: "chat_loop echo_runner () [''EXIT  '', ''hi''] =
       \<lparr>ending = Exited,
        stdout = [''You: '',
                  ''Thank you for contacting ACME Corp. Have a great day!'' @ [CHR 0x0A]],
        runner_inputs = [], world = ()\<rparr>"
    by blast
  from exit_line_ends_loop[where l = "''EXIT  ''" and run = echo_runner and w = "()" and rest = "[]"] x
  have 2: "chat_loop echo_runner () [''EXIT  ''] =
       \<lparr>ending = Exited,
        stdout = [''You: '',
                  ''Thank you for contacting ACME Corp. Have a great day!'' @ [CHR 0x0A]],
        runner_inputs = [], world = ()\<rparr>"
    by blast
  from exit_line_ends_loop[where l = "''hi''" and run = echo_runner and w = "()" and out = "''hi''"
      and w' = "()" and rest = "[''EXIT  '']"] n ok
  have "chat_loop echo_runner () [''hi'', ''EXIT  ''] =
        (chat_loop echo_runner () [''EXIT  ''])
          \<lparr>stdout := ''You: '' # (''SupportBot: '' @ ''hi'' @ [CHR 0x0A, CHR 0x0A])
                       # stdout (chat_loop echo_runner () [''EXIT  '']),
           runner_inputs := ''hi'' # runner_inputs (chat_loop echo_runner () [''EXIT  ''])\<rparr>"
    by blast
  then have 3: "chat_loop echo_runner () [''hi'', ''EXIT  ''] =
       \<lparr>ending = Exited,
        stdout = [''You: '', ''SupportBot: hi'' @ [CHR 0x0A, CHR 0x0A], ''You: '',
                  ''Thank you for contacting ACME Corp. Have a great day!'' @ [CHR 0x0A]],
        runner_inputs = [''hi''], world = ()\<rparr>"
    by (simp only: 2) simp
  from exit_line_ends_loop[where l = "''hi''" and run = raising_runner and w = "()" and w' = "()"
      and rest = "[''EXIT  '']" and e = "RunnerError ''malformed response''"] n bad
  have 4: "chat_loop raising_runner () [''hi'', ''EXIT  ''] =
       \<lparr>ending = Raised (RunnerError ''malformed response''), stdout = [''You: ''],
        runner_inputs = [''hi''], world = ()\<rparr>"
    by blast
  from x 1 n 3 4 show ?thesis by blast
qed

text \<open>
  Claim C8 as stated fails: \<open>hello\<close> is no exit line, the runner is called with it once and
  raises, and the loop does not go on to the next line.
\<close>

theorem loop_does_not_continue_counterexample:
  "\<not> is_exit ''hello''
   \<and> chat_loop raising_runner () [''hello'', ''exit''] =
       \<lparr>ending = Raised (RunnerError ''malformed response''), stdout = [''You: ''],
        runner_inputs = [''hello''], world = ()\<rparr>"
  by (simp add: is_exit_def raising_runner_def lower_def strip_def py_isspace_def
      py_lower_char_def)

end
